theory Spec2Isabelle
  imports Complex_Main "HOL-Library.Char_ord" "HOL-Library.List_Lexorder" "HOL-Library.Word"
begin

section \<open>execnet gateway\_base: conventions of the embedding\<close>

text \<open>
  The embedding follows \<^verbatim>\<open>src/execnet/gateway_base.py\<close> on a Python 3 interpreter
  (\<^verbatim>\<open>ISPY3\<close> is true), so of every \<^verbatim>\<open>if ISPY3: ... else: ...\<close> at class level the
  first branch is the one embedded. A Python name with a leading underscore is written
  with the prefix \<open>u_\<close> (\<^verbatim>\<open>_save\<close> is \<open>u_save\<close>). A byte is a \<^typ>\<open>char\<close>, a byte
  string a \<^typ>\<open>string\<close>; a Python \<^verbatim>\<open>str\<close> is the list of its code points. Exceptions are
  values of the type \<open>exn\<close> (\<open>U_Stop\<close> is the class \<^verbatim>\<open>_Stop\<close>); a function that can raise
  returns the exception beside, or instead of, its result.
\<close>

type_synonym byte = char
type_synonym bytes = "char list"

datatype exn =
    IOError string
  | EOFError
  | TimeoutError
  | SerializationError string
  | UnserializationError string
  | StructError
  | UnicodeEncodeError
  | UnicodeDecodeError
  | TypeError
  | IndexError
  | ValueError
  | AttributeError
  | RemoteErrorExn string
  | U_Stop

definition ISPY3 :: bool where
  "ISPY3 = True"

text \<open>\<^verbatim>\<open>b(s)\<close> is \<^verbatim>\<open>s.encode("latin-1")\<close>; \<^verbatim>\<open>chr(n)\<close> for \<open>n < 256\<close> is then the byte \<open>n\<close>.\<close>

definition b_chr :: "nat \<Rightarrow> byte" where
  "b_chr n = char_of n"

definition FOUR_BYTE_INT_MAX :: int where
  "FOUR_BYTE_INT_MAX = 2147483647"

subsection \<open>The struct module\<close>

text \<open>
  \<^verbatim>\<open>struct.pack("!i", i)\<close>: four bytes, big-endian, two's complement; \<^verbatim>\<open>struct.error\<close>
  when \<open>i\<close> is not a signed 32-bit integer.
\<close>

definition big_endian4 :: "int \<Rightarrow> bytes" where
  "big_endian4 u = [char_of (u div 16777216), char_of (u div 65536), char_of (u div 256), char_of u]"

definition struct_pack_i :: "int \<Rightarrow> exn + bytes" where
  "struct_pack_i i =
     (if - 2147483648 \<le> i \<and> i \<le> 2147483647
      then Inr (big_endian4 (i mod 4294967296))
      else Inl StructError)"

text \<open>\<^verbatim>\<open>struct.unpack("!i", data)[0]\<close>: \<^verbatim>\<open>struct.error\<close> unless \<open>data\<close> has four bytes.\<close>

definition struct_unpack_i :: "bytes \<Rightarrow> exn + int" where
  "struct_unpack_i data =
     (case data of
        [b3, b2, b1, b0] \<Rightarrow>
          (let u = ((of_char b3 * 256 + of_char b2) * 256 + of_char b1) * 256 + of_char b0
           in Inr (if u < (2147483648::int) then u else u - 4294967296))
      | _ \<Rightarrow> Inl StructError)"

text \<open>
  A Python float is represented by its IEEE-754 binary64 bit pattern;
  \<^verbatim>\<open>struct.pack("!d", flt)\<close> writes the eight bytes of the pattern, most significant first.
\<close>

definition struct_pack_d :: "64 word \<Rightarrow> bytes" where
  "struct_pack_d w = map (\<lambda>k. char_of (uint w div 256 ^ k)) [7, 6, 5, 4, 3, 2, 1, 0 :: nat]"

definition struct_unpack_d :: "bytes \<Rightarrow> exn + 64 word" where
  "struct_unpack_d data =
     (if length data = 8 then Inr (word_of_int (foldl (\<lambda>acc c. acc * 256 + of_char c) 0 data))
      else Inl StructError)"

definition FLOAT_FORMAT_SIZE :: nat where
  "FLOAT_FORMAT_SIZE = 8"

section \<open>The opcode table\<close>

text \<open>The loader functions of the class \<^verbatim>\<open>Unserializer\<close>.\<close>

datatype loader =
    LoadNone | LoadTrue | LoadFalse | LoadInt | LoadLongint | LoadFloat
  | LoadPy3string | LoadPy2string | LoadBytes | LoadUnicode | LoadNewlist | LoadSetitem
  | LoadNewdict | LoadBuildtuple | LoadSet | LoadFrozenset | LoadStop | LoadChannel
  | OtherAttribute

text \<open>
  \<^verbatim>\<open>Unserializer.__dict__.items()\<close>: the attributes of the class in the order of their
  declaration. On Python 3 \<^verbatim>\<open>load_long = load_int\<close> and \<^verbatim>\<open>load_longlong = load_longint\<close>.
\<close>

definition Unserializer_dict :: "(string \<times> loader) list" where
  "Unserializer_dict =
    [(''num2func'', OtherAttribute), (''py2str_as_py3str'', OtherAttribute),
     (''py3str_as_py2str'', OtherAttribute), (''__init__'', OtherAttribute),
     (''load'', OtherAttribute),
     (''load_none'', LoadNone), (''load_true'', LoadTrue), (''load_false'', LoadFalse),
     (''load_int'', LoadInt), (''load_longint'', LoadLongint),
     (''load_long'', LoadInt), (''load_longlong'', LoadLongint),
     (''load_float'', LoadFloat),
     (''_read_int4'', OtherAttribute), (''_read_byte_string'', OtherAttribute),
     (''load_py3string'', LoadPy3string), (''load_py2string'', LoadPy2string),
     (''load_bytes'', LoadBytes), (''load_unicode'', LoadUnicode),
     (''load_newlist'', LoadNewlist), (''load_setitem'', LoadSetitem),
     (''load_newdict'', LoadNewdict), (''_load_tuple'', OtherAttribute),
     (''load_buildtuple'', LoadBuildtuple), (''load_set'', LoadSet),
     (''load_frozenset'', LoadFrozenset), (''load_stop'', LoadStop),
     (''load_channel'', LoadChannel)]"

definition startswith :: "string \<Rightarrow> string \<Rightarrow> bool" where
  "startswith s p = (take (length p) s = p)"

definition upper_char :: "char \<Rightarrow> char" where
  "upper_char c =
     (if CHR ''a'' \<le> c \<and> c \<le> CHR ''z'' then char_of (of_char c - (32::nat)) else c)"

definition upper :: "string \<Rightarrow> string" where
  "upper s = map upper_char s"

text \<open>
  \<^verbatim>\<open>_buildopcodes\<close>, first half: the list \<open>l\<close> of the pairs \<open>(opname, func)\<close> after
  \<^verbatim>\<open>l.sort()\<close>. The names are distinct, so the sort never compares two functions.
\<close>

definition sorted_loaders :: "(string \<times> loader) list \<Rightarrow> (string \<times> loader) list" where
  "sorted_loaders attrs =
     sort_key fst
       (map (\<lambda>(name, func). (upper (drop 5 name), func))
          (filter (\<lambda>(name, func). startswith name ''load_'') attrs))"

text \<open>
  \<^verbatim>\<open>_buildopcodes\<close>, second half: \<^verbatim>\<open>for i, (opname, func) in enumerate(l)\<close> with
  \<^verbatim>\<open>i = b(chr(64+i))\<close>. The result is the pair of \<^verbatim>\<open>Unserializer.num2func\<close> and of the
  attributes set on the class \<^verbatim>\<open>opcode\<close>, both as association lists.
\<close>

definition buildopcodes ::
  "(string \<times> loader) list \<Rightarrow> (byte \<times> loader) list \<times> (string \<times> byte) list" where
  "buildopcodes attrs =
     (let l = sorted_loaders attrs;
          numbered = zip [0 ..< length l] l
      in (map (\<lambda>(i, (opname, func)). (b_chr (64 + i), func)) numbered,
          map (\<lambda>(i, (opname, func)). (opname, b_chr (64 + i))) numbered))"

definition num2func :: "byte \<Rightarrow> loader option" where
  "num2func = map_of (fst (buildopcodes Unserializer_dict))"

text \<open>\<^verbatim>\<open>opcode.NAME\<close>: the attribute \<^verbatim>\<open>NAME\<close> of the class \<^verbatim>\<open>opcode\<close>, if it was set.\<close>

definition opcode :: "string \<Rightarrow> byte option" where
  "opcode = map_of (snd (buildopcodes Unserializer_dict))"

definition opcode_names :: "string list" where
  "opcode_names =
     [''BUILDTUPLE'', ''BYTES'', ''CHANNEL'', ''FALSE'', ''FLOAT'', ''FROZENSET'', ''INT'',
      ''LONG'', ''LONGINT'', ''LONGLONG'', ''NEWDICT'', ''NEWLIST'', ''NONE'', ''PY2STRING'',
      ''PY3STRING'', ''SET'', ''SETITEM'', ''STOP'', ''TRUE'', ''UNICODE'']"

text \<open>The opcodes the serializer reads from the class \<^verbatim>\<open>opcode\<close>, as \<^verbatim>\<open>opcode.NAME\<close>.\<close>

definition op :: "string \<Rightarrow> byte" where
  "op name = the (opcode name)"

section \<open>Python values\<close>

text \<open>
  The objects the serializer is given. A list, a tuple, a set or a frozenset is the list
  of its elements in the order of iteration, a dict the list of its items in that order.
  \<open>VChannel i\<close> is the \<^verbatim>\<open>Channel\<close> object of id \<open>i\<close>, \<open>VRemoteError t\<close> an instance of
  \<^verbatim>\<open>RemoteError\<close>, and \<open>VObject n\<close> an object of any other type, of name \<open>n\<close>, for which
  the serializer has no \<^verbatim>\<open>save_\<close> method.
\<close>

datatype pyval =
    VNone
  | VBool bool
  | VInt int
  | VFloat "64 word"
  | VBytes bytes
  | VStr "nat list"
  | VList "pyval list"
  | VDict "(pyval \<times> pyval) list"
  | VTuple "pyval list"
  | VSet "pyval list"
  | VFrozenset "pyval list"
  | VChannel int
  | VRemoteError string
  | VObject string

subsection \<open>Text: \<^verbatim>\<open>str.encode("utf-8")\<close> and \<^verbatim>\<open>bytes.decode("utf-8")\<close>\<close>

definition utf8_encode_cp :: "nat \<Rightarrow> bytes option" where
  "utf8_encode_cp c =
     (if c < 128 then Some [char_of c]
      else if c < 2048 then Some [char_of (192 + c div 64), char_of (128 + c mod 64)]
      else if c < 65536 then
        (if 55296 \<le> c \<and> c \<le> 57343 then None
         else Some [char_of (224 + c div 4096), char_of (128 + c div 64 mod 64),
                    char_of (128 + c mod 64)])
      else if c < 1114112 then
        Some [char_of (240 + c div 262144), char_of (128 + c div 4096 mod 64),
              char_of (128 + c div 64 mod 64), char_of (128 + c mod 64)]
      else None)"

fun utf8_encode :: "nat list \<Rightarrow> exn + bytes" where
  "utf8_encode [] = Inr []"
| "utf8_encode (c # cs) =
     (case utf8_encode_cp c of
        None \<Rightarrow> Inl UnicodeEncodeError
      | Some bs \<Rightarrow> (case utf8_encode cs of Inl e \<Rightarrow> Inl e | Inr rest \<Rightarrow> Inr (bs @ rest)))"

definition is_cont :: "byte \<Rightarrow> bool" where
  "is_cont c = (128 \<le> (of_char c :: nat) \<and> (of_char c :: nat) < 192)"

definition cont :: "byte \<Rightarrow> nat" where
  "cont c = of_char c - 128"

fun utf8_decode :: "bytes \<Rightarrow> exn + nat list" where
  "utf8_decode [] = Inr []"
| "utf8_decode (b0 # rest) =
     (let n0 = (of_char b0 :: nat) in
      if n0 < 128 then
        (case utf8_decode rest of Inl e \<Rightarrow> Inl e | Inr cs \<Rightarrow> Inr (n0 # cs))
      else if 194 \<le> n0 \<and> n0 < 224 then
        (case rest of
           b1 # rest1 \<Rightarrow>
             if is_cont b1 then
               (case utf8_decode rest1 of Inl e \<Rightarrow> Inl e
                | Inr cs \<Rightarrow> Inr (((n0 - 192) * 64 + cont b1) # cs))
             else Inl UnicodeDecodeError
         | _ \<Rightarrow> Inl UnicodeDecodeError)
      else if 224 \<le> n0 \<and> n0 < 240 then
        (case rest of
           b1 # b2 # rest2 \<Rightarrow>
             (let c = ((n0 - 224) * 64 + cont b1) * 64 + cont b2 in
              if is_cont b1 \<and> is_cont b2 \<and> 2048 \<le> c \<and> \<not> (55296 \<le> c \<and> c \<le> 57343) then
                (case utf8_decode rest2 of Inl e \<Rightarrow> Inl e | Inr cs \<Rightarrow> Inr (c # cs))
              else Inl UnicodeDecodeError)
         | _ \<Rightarrow> Inl UnicodeDecodeError)
      else if 240 \<le> n0 \<and> n0 < 245 then
        (case rest of
           b1 # b2 # b3 # rest3 \<Rightarrow>
             (let c = (((n0 - 240) * 64 + cont b1) * 64 + cont b2) * 64 + cont b3 in
              if is_cont b1 \<and> is_cont b2 \<and> is_cont b3 \<and> 65536 \<le> c \<and> c < 1114112 then
                (case utf8_decode rest3 of Inl e \<Rightarrow> Inl e | Inr cs \<Rightarrow> Inr (c # cs))
              else Inl UnicodeDecodeError)
         | _ \<Rightarrow> Inl UnicodeDecodeError)
      else Inl UnicodeDecodeError)"

text \<open>\<^verbatim>\<open>bytes.decode("latin-1")\<close>: every byte is the code point of its value.\<close>

definition latin1_decode :: "bytes \<Rightarrow> nat list" where
  "latin1_decode bs = map of_char bs"

subsection \<open>Integers: \<^verbatim>\<open>str(i)\<close> and \<^verbatim>\<open>int(s)\<close>\<close>

definition digit_char :: "int \<Rightarrow> char" where
  "digit_char d = char_of (48 + d)"

text \<open>The decimal digits of an integer that is not negative.\<close>

function str_digits :: "int \<Rightarrow> string" where
  "str_digits n =
     (if n < 10 then [digit_char n] else str_digits (n div 10) @ [digit_char (n mod 10)])"
  by pat_completeness auto
termination
  by (relation "measure nat") auto

declare str_digits.simps [simp del]

definition str_int :: "int \<Rightarrow> string" where
  "str_int i = (if i < 0 then CHR ''-'' # str_digits (- i) else str_digits i)"

text \<open>\<^verbatim>\<open>s.rstrip("L")\<close>\<close>

definition rstrip_L :: "string \<Rightarrow> string" where
  "rstrip_L s = rev (dropWhile (\<lambda>c. c = CHR ''L'') (rev s))"

definition is_digit :: "char \<Rightarrow> bool" where
  "is_digit c = (CHR ''0'' \<le> c \<and> c \<le> CHR ''9'')"

definition digits_value :: "string \<Rightarrow> int" where
  "digits_value ds = foldl (\<lambda>acc c. acc * 10 + (of_char c - 48)) 0 ds"

text \<open>
  \<^verbatim>\<open>int(s)\<close> for a byte string: an optional sign and decimal digits; \<^verbatim>\<open>ValueError\<close>
  otherwise. (Python also accepts blanks around the number and underscores between
  digits; a string with either is a \<^verbatim>\<open>ValueError\<close> here.)
\<close>

definition int_of_bytes :: "bytes \<Rightarrow> exn + int" where
  "int_of_bytes s =
     (let (neg, ds) =
            (case s of
               c # cs \<Rightarrow> if c = CHR ''-'' then (True, cs) else if c = CHR ''+'' then (False, cs)
                         else (False, s)
             | [] \<Rightarrow> (False, s))
      in if ds \<noteq> [] \<and> list_all is_digit ds
         then Inr (if neg then - digits_value ds else digits_value ds)
         else Inl ValueError)"

section \<open>The transport: \<^verbatim>\<open>Popen2IO\<close>\<close>

text \<open>
  \<open>outfile\<close> holds the data written and flushed so far, one entry for each call of
  \<^verbatim>\<open>write\<close>; \<open>outfile_error\<close> is the exception a write to the file raises (a closed file,
  a broken pipe), if any; \<open>infile\<close> is what is still to be read.
\<close>

record popen2io =
  outfile :: "bytes list"
  outfile_error :: "exn option"
  infile :: bytes

definition Popen2IO_write :: "popen2io \<Rightarrow> bytes \<Rightarrow> exn + popen2io" where
  "Popen2IO_write io data =
     (case outfile_error io of
        Some e \<Rightarrow> Inl e
      | None \<Rightarrow> Inr (io\<lparr>outfile := outfile io @ [data]\<rparr>))"

text \<open>
  \<^verbatim>\<open>Popen2IO.read(numbytes)\<close>: exactly \<open>numbytes\<close> bytes, or \<^verbatim>\<open>EOFError\<close> when the file
  ends before; nothing is read for a count that is not positive. The result is the data
  and the file after the read.
\<close>

definition Popen2IO_read :: "bytes \<Rightarrow> int \<Rightarrow> exn + (bytes \<times> bytes)" where
  "Popen2IO_read inp numbytes =
     (if numbytes \<le> 0 then Inr ([], inp)
      else if int (length inp) < numbytes then Inl EOFError
      else Inr (take (nat numbytes) inp, drop (nat numbytes) inp))"

section \<open>The serializer\<close>

text \<open>
  \<^verbatim>\<open>Serializer.save\<close> binds \<^verbatim>\<open>self._write\<close> to \<^verbatim>\<open>self.streamlist.append\<close>, so all a
  method of the serializer does is to append chunks to the list, until it returns or
  raises. Its result is the exception it raised, if any, and the chunks it appended, in
  order.
\<close>

type_synonym wres = "exn option \<times> bytes list"

definition u_write :: "bytes \<Rightarrow> wres" where
  "u_write data = (None, [data])"

text \<open>Two statements in sequence: the second runs unless the first raised.\<close>

definition andthen :: "wres \<Rightarrow> wres \<Rightarrow> wres" where
  "andthen r1 r2 =
     (case r1 of
        (Some e, w1) \<Rightarrow> (Some e, w1)
      | (None, w1) \<Rightarrow> (case r2 of (r, w2) \<Rightarrow> (r, w1 @ w2)))"

definition int4_error :: string where
  "int4_error = ''int must be less than 2147483647''"

definition u_write_int4 :: "int \<Rightarrow> string \<Rightarrow> wres" where
  "u_write_int4 i error =
     (if i > FOUR_BYTE_INT_MAX then (Some (SerializationError error), [])
      else (case struct_pack_i i of Inl e \<Rightarrow> (Some e, []) | Inr data \<Rightarrow> u_write data))"

definition u_write_byte_sequence :: "bytes \<Rightarrow> wres" where
  "u_write_byte_sequence bytes' =
     andthen (u_write_int4 (int (length bytes')) ''string is too long'') (u_write bytes')"

definition u_write_unicode_string :: "nat list \<Rightarrow> wres" where
  "u_write_unicode_string s =
     (case utf8_encode s of
        Inl e \<Rightarrow> (Some (SerializationError ''strings must be utf-8 encodable''), [])
      | Inr as_bytes \<Rightarrow> u_write_byte_sequence as_bytes)"

definition u_save_integral :: "int \<Rightarrow> byte \<Rightarrow> byte \<Rightarrow> wres" where
  "u_save_integral i short_op long_op =
     (if i \<le> FOUR_BYTE_INT_MAX
      then andthen (u_write [short_op]) (u_write_int4 i int4_error)
      else andthen (u_write [long_op]) (u_write_byte_sequence (rstrip_L (str_int i))))"

definition save_NoneType :: wres where
  "save_NoneType = u_write [op ''NONE'']"

definition save_bool :: "bool \<Rightarrow> wres" where
  "save_bool boolean = (if boolean then u_write [op ''TRUE''] else u_write [op ''FALSE''])"

definition save_bytes :: "bytes \<Rightarrow> wres" where
  "save_bytes bytes' = andthen (u_write [op ''BYTES'']) (u_write_byte_sequence bytes')"

definition save_str :: "nat list \<Rightarrow> wres" where
  "save_str s = andthen (u_write [op ''PY3STRING'']) (u_write_unicode_string s)"

definition save_int :: "int \<Rightarrow> wres" where
  "save_int i = u_save_integral i (op ''INT'') (op ''LONGINT'')"

definition save_long :: "int \<Rightarrow> wres" where
  "save_long l = u_save_integral l (op ''LONG'') (op ''LONGLONG'')"

definition save_float :: "64 word \<Rightarrow> wres" where
  "save_float flt = andthen (u_write [op ''FLOAT'']) (u_write (struct_pack_d flt))"

definition save_Channel :: "int \<Rightarrow> wres" where
  "save_Channel channel_id =
     andthen (u_write [op ''CHANNEL'']) (u_write_int4 channel_id int4_error)"

text \<open>
  \<^verbatim>\<open>_save\<close> dispatches on the type of the object to the method \<^verbatim>\<open>save_<type name>\<close>;
  the loops of \<^verbatim>\<open>save_tuple\<close> and \<^verbatim>\<open>_write_set\<close> (\<open>save_each\<close>), of \<^verbatim>\<open>save_list\<close>
  (\<open>save_enumerated\<close>, from index \<open>i\<close>) and of \<^verbatim>\<open>save_dict\<close> (\<open>save_pairs\<close>) are
  recursions over the elements.
\<close>

function (sequential) u_save :: "pyval \<Rightarrow> wres"
  and u_write_setitem :: "pyval \<Rightarrow> pyval \<Rightarrow> wres"
  and save_list :: "pyval list \<Rightarrow> wres"
  and save_dict :: "(pyval \<times> pyval) list \<Rightarrow> wres"
  and save_tuple :: "pyval list \<Rightarrow> wres"
  and u_write_set :: "pyval list \<Rightarrow> byte \<Rightarrow> wres"
  and save_each :: "pyval list \<Rightarrow> wres"
  and save_enumerated :: "nat \<Rightarrow> pyval list \<Rightarrow> wres"
  and save_pairs :: "(pyval \<times> pyval) list \<Rightarrow> wres"
where
  "u_save VNone = save_NoneType"
| "u_save (VBool boolean) = save_bool boolean"
| "u_save (VInt i) = save_int i"
| "u_save (VFloat flt) = save_float flt"
| "u_save (VBytes bytes') = save_bytes bytes'"
| "u_save (VStr s) = save_str s"
| "u_save (VList L) = save_list L"
| "u_save (VDict d) = save_dict d"
| "u_save (VTuple tup) = save_tuple tup"
| "u_save (VSet s) = u_write_set s (op ''SET'')"
| "u_save (VFrozenset s) = u_write_set s (op ''FROZENSET'')"
| "u_save (VChannel channel_id) = save_Channel channel_id"
| "u_save (VRemoteError formatted) =
     (Some (SerializationError (''can't serialize '' @ ''RemoteError'')), [])"
| "u_save (VObject tp) = (Some (SerializationError (''can't serialize '' @ tp)), [])"
| "u_write_setitem key v = andthen (u_save key) (andthen (u_save v) (u_write [op ''SETITEM'']))"
| "save_list L =
     andthen (u_write [op ''NEWLIST''])
       (andthen (u_write_int4 (int (length L)) ''list is too long'') (save_enumerated 0 L))"
| "save_dict d = andthen (u_write [op ''NEWDICT'']) (save_pairs d)"
| "save_tuple tup =
     andthen (save_each tup)
       (andthen (u_write [op ''BUILDTUPLE''])
          (u_write_int4 (int (length tup)) ''tuple is too long''))"
| "u_write_set s opc =
     andthen (save_each s)
       (andthen (u_write [opc]) (u_write_int4 (int (length s)) ''set is too long''))"
| "save_each [] = (None, [])"
| "save_each (item # items) = andthen (u_save item) (save_each items)"
| "save_enumerated i [] = (None, [])"
| "save_enumerated i (item # items) =
     andthen (u_write_setitem (VInt (int i)) item) (save_enumerated (Suc i) items)"
| "save_pairs [] = (None, [])"
| "save_pairs ((key, v) # items) = andthen (u_write_setitem key v) (save_pairs items)"
  by pat_completeness auto
termination
  by (relation "measure
        (case_sum
          (case_sum
            (case_sum (\<lambda>obj. 4 * size obj + 1) (\<lambda>(key, v). 4 * size key + 4 * size v + 2))
            (case_sum (\<lambda>L. 4 * size_list size L + 4)
                      (\<lambda>d. 4 * size_list (size_prod size size) d + 4)))
          (case_sum
            (case_sum (\<lambda>tup. 4 * size_list size tup + 4) (\<lambda>(s, opc). 4 * size_list size s + 4))
            (case_sum (\<lambda>items. 4 * size_list size items + 3)
              (case_sum (\<lambda>(i, items). 4 * size_list size items + 3)
                        (\<lambda>items. 4 * size_list (size_prod size size) items + 3)))))")
     simp_all

record serializer =
  WRITE_ON_SUCCESS :: bool
  streamlist :: "bytes list"
  u_stream :: popen2io

text \<open>
  \<^verbatim>\<open>Serializer.save\<close>. The object has the attribute \<^verbatim>\<open>_stream\<close> and no attribute
  \<^verbatim>\<open>stream\<close>, so without \<^verbatim>\<open>WRITE_ON_SUCCESS\<close> the assignment of \<^verbatim>\<open>self._write\<close> raises
  \<^verbatim>\<open>AttributeError\<close>. The result is the exception raised, if any, and the serializer
  afterwards.
\<close>

definition save :: "serializer \<Rightarrow> pyval \<Rightarrow> exn option \<times> serializer" where
  "save ser obj =
     (if WRITE_ON_SUCCESS ser then
        (case andthen (u_save obj) (u_write [op ''STOP'']) of
           (Some e, sl) \<Rightarrow> (Some e, ser\<lparr>streamlist := sl\<rparr>)
         | (None, sl) \<Rightarrow>
             (case Popen2IO_write (u_stream ser) (concat sl) of
                Inl e \<Rightarrow> (Some e, ser\<lparr>streamlist := sl\<rparr>)
              | Inr io \<Rightarrow> (None, ser\<lparr>streamlist := sl, u_stream := io\<rparr>)))
      else (Some AttributeError, ser))"

section \<open>Channels, the channel factory and the gateway: the state\<close>

text \<open>
  What a channel's queue \<^verbatim>\<open>_items\<close> holds: a received item or the object \<^verbatim>\<open>ENDMARKER\<close>.
\<close>

datatype item = Item pyval | ENDMARKER

text \<open>
  A \<^verbatim>\<open>Channel\<close> object. \<open>u_items\<close> is \<open>None\<close> when \<^verbatim>\<open>self._items\<close> is \<^verbatim>\<open>None\<close>, and the
  queue with its oldest entry first otherwise; \<open>u_receiveclosed\<close> is the state of the
  event \<^verbatim>\<open>_receiveclosed\<close>.
\<close>

record channel =
  cid :: int
  u_items :: "item list option"
  u_closed :: bool
  u_receiveclosed :: bool
  u_remoteerrors :: "pyval list"
  u_executing :: bool

text \<open>A message: its class, by name, with \<^verbatim>\<open>channelid\<close> and \<^verbatim>\<open>data\<close>.\<close>

datatype msgclass =
    STATUS | CHANNEL_EXEC | CHANNEL_DATA | CHANNEL_CLOSE | CHANNEL_CLOSE_ERROR
  | CHANNEL_LAST_MESSAGE | GATEWAY_TERMINATE

record message =
  msgclass :: msgclass
  channelid :: int
  data :: pyval

text \<open>\<^verbatim>\<open>Message(channelid)\<close> of a class: \<^verbatim>\<open>data\<close> defaults to the empty string.\<close>

definition Msg :: "msgclass \<Rightarrow> int \<Rightarrow> message" where
  "Msg cls channelid' = \<lparr>msgclass = cls, channelid = channelid', data = VStr []\<rparr>"

definition Msg_data :: "msgclass \<Rightarrow> int \<Rightarrow> pyval \<Rightarrow> message" where
  "Msg_data cls channelid' data' = \<lparr>msgclass = cls, channelid = channelid', data = data'\<rparr>"

text \<open>
  \<^verbatim>\<open>_setupmessages\<close>: \<^verbatim>\<open>cls.msgtype\<close> is the index of the class in the list \<^verbatim>\<open>classes\<close>.
\<close>

definition classes :: "msgclass list" where
  "classes = [STATUS, CHANNEL_EXEC, CHANNEL_DATA, CHANNEL_CLOSE, CHANNEL_CLOSE_ERROR,
              CHANNEL_LAST_MESSAGE, GATEWAY_TERMINATE]"

fun index_of :: "'a \<Rightarrow> 'a list \<Rightarrow> nat" where
  "index_of x [] = 0"
| "index_of x (y # ys) = (if x = y then 0 else Suc (index_of x ys))"

definition msgtype :: "msgclass \<Rightarrow> int" where
  "msgtype cls = int (index_of cls classes)"

text \<open>
  A callback is a function of the user: it has a name, here a number, and for each
  argument it either returns or raises an exception, the one \<open>raises\<close> gives.
\<close>

datatype callback = Callback nat "pyval \<Rightarrow> exn option"

text \<open>
  The state of a gateway, with the state of the objects it owns: the serializer (whose
  \<^verbatim>\<open>_stream\<close> is the transport \<^verbatim>\<open>_io\<close> of the gateway) and the channel factory
  (\<open>u_channels\<close>, \<open>u_callbacks\<close>, \<open>count\<close>, \<open>finished\<close>). \<open>channel_objects\<close> gives the
  \<^verbatim>\<open>Channel\<close> object behind each reference; \<open>next_object\<close> is the reference the next
  channel created gets. The weak dictionary \<^verbatim>\<open>_channels\<close> maps an id to the
  reference of a channel, \<^verbatim>\<open>_callbacks\<close> an id to a callback and its endmarker (\<open>None\<close> for
  \<^verbatim>\<open>NO_ENDMARKER_WANTED\<close>). Each call of a callback is
  recorded in \<open>callback_calls\<close>, with its argument. \<open>u_error\<close> and
  \<open>u_execqueue\<close> are \<open>None\<close> as long as the gateway has no attribute \<^verbatim>\<open>_error\<close> or
  \<^verbatim>\<open>_execqueue\<close>. \<open>stderr\<close> holds what was written to \<^verbatim>\<open>sys.stderr\<close>.
\<close>

record gateway =
  u_serializer :: serializer
  channel_objects :: "nat \<Rightarrow> channel"
  next_object :: nat
  u_channels :: "(int \<times> nat) list"
  u_callbacks :: "(int \<times> (callback \<times> pyval option)) list"
  count :: int
  finished :: bool
  u_error :: "exn option"
  u_execqueue :: "(nat \<times> pyval) option list option"
  stderr :: "string list"
  callback_calls :: "(callback \<times> pyval) list"

text \<open>
  The result of a method: the value it returns or the exception it raises; \<open>Blocks\<close> when
  it waits for an item that, with no other thread running, never comes.
\<close>

datatype 'a outcome = Returns 'a | Raises exn | Blocks

text \<open>\<^verbatim>\<open>Channel.__init__\<close>\<close>

definition Channel_init :: "int \<Rightarrow> channel" where
  "Channel_init id' =
     \<lparr>cid = id', u_items = Some [], u_closed = False, u_receiveclosed = False,
      u_remoteerrors = [], u_executing = False\<rparr>"

text \<open>
  \<^verbatim>\<open>ChannelFactory.new(id)\<close>; \<open>None\<close> for the id is \<^verbatim>\<open>id=None\<close>. It returns the reference
  of the channel.
\<close>

definition new :: "gateway \<Rightarrow> int option \<Rightarrow> nat outcome \<times> gateway" where
  "new g id_opt =
     (if finished g then (Raises (IOError ''connexion already closed''), g)
      else
        let (id', g1) = (case id_opt of
                           None \<Rightarrow> (count g, g\<lparr>count := count g + 2\<rparr>)
                         | Some i \<Rightarrow> (i, g))
        in (case map_of (u_channels g1) id' of
              Some r \<Rightarrow> (Returns r, g1)
            | None \<Rightarrow>
                let r = next_object g1
                in (Returns r,
                    g1\<lparr>channel_objects := (channel_objects g1)(r := Channel_init id'),
                       next_object := Suc r,
                       u_channels := u_channels g1 @ [(id', r)]\<rparr>)))"

section \<open>Equality and hashing of Python values\<close>

text \<open>
  The number a float stands for, if it is finite: sign, exponent and fraction of the
  binary64 pattern.
\<close>

definition float_exponent :: "64 word \<Rightarrow> int" where
  "float_exponent w = uint w div 4503599627370496 mod 2048"

definition float_fraction :: "64 word \<Rightarrow> int" where
  "float_fraction w = uint w mod 4503599627370496"

definition float_isnan :: "64 word \<Rightarrow> bool" where
  "float_isnan w = (float_exponent w = 2047 \<and> float_fraction w \<noteq> 0)"

definition float_finite :: "64 word \<Rightarrow> bool" where
  "float_finite w = (float_exponent w \<noteq> 2047)"

definition float_value :: "64 word \<Rightarrow> rat" where
  "float_value w =
     (let m = (if float_exponent w = 0 then float_fraction w
               else 4503599627370496 + float_fraction w);
          e = (if float_exponent w = 0 then - 1074 else float_exponent w - 1075);
          a = (if 0 \<le> e then of_int m * 2 ^ nat e else of_int m / 2 ^ nat (- e))
      in if uint w < 9223372036854775808 then a else - a)"

definition float_eq :: "64 word \<Rightarrow> 64 word \<Rightarrow> bool" where
  "float_eq a b =
     (\<not> float_isnan a \<and> \<not> float_isnan b \<and>
      (if float_finite a \<and> float_finite b then float_value a = float_value b else a = b))"

definition float_eq_int :: "64 word \<Rightarrow> int \<Rightarrow> bool" where
  "float_eq_int a i = (float_finite a \<and> float_value a = of_int i)"

definition int_of_bool :: "bool \<Rightarrow> int" where
  "int_of_bool x = (if x then 1 else 0)"

text \<open>
  \<^verbatim>\<open>a == b\<close> for two hashable objects, as a dict or a set tests its keys. Numbers
  compare by value across \<^verbatim>\<open>bool\<close>, \<^verbatim>\<open>int\<close> and \<^verbatim>\<open>float\<close>; tuples compare element by
  element; two frozensets are equal when they have the same elements; an object without
  a value of its own is equal to itself only, which two objects met at different places
  of a stream never are. Lists, dicts and sets are not hashable and never compared here.
\<close>

function py_eq :: "pyval \<Rightarrow> pyval \<Rightarrow> bool" where
  "py_eq a b =
     (case a of
        VNone \<Rightarrow> (case b of VNone \<Rightarrow> True | _ \<Rightarrow> False)
      | VBool x \<Rightarrow>
          (case b of VBool y \<Rightarrow> x = y | VInt j \<Rightarrow> int_of_bool x = j
           | VFloat g \<Rightarrow> float_eq_int g (int_of_bool x) | _ \<Rightarrow> False)
      | VInt i \<Rightarrow>
          (case b of VBool y \<Rightarrow> i = int_of_bool y | VInt j \<Rightarrow> i = j
           | VFloat g \<Rightarrow> float_eq_int g i | _ \<Rightarrow> False)
      | VFloat f \<Rightarrow>
          (case b of VBool y \<Rightarrow> float_eq_int f (int_of_bool y) | VInt j \<Rightarrow> float_eq_int f j
           | VFloat g \<Rightarrow> float_eq f g | _ \<Rightarrow> False)
      | VBytes x \<Rightarrow> (case b of VBytes y \<Rightarrow> x = y | _ \<Rightarrow> False)
      | VStr x \<Rightarrow> (case b of VStr y \<Rightarrow> x = y | _ \<Rightarrow> False)
      | VTuple xs \<Rightarrow> (case b of VTuple ys \<Rightarrow> list_all2 py_eq xs ys | _ \<Rightarrow> False)
      | VFrozenset xs \<Rightarrow>
          (case b of
             VFrozenset ys \<Rightarrow>
               length xs = length ys \<and> list_all (\<lambda>x. list_ex (\<lambda>y. py_eq x y) ys) xs
           | _ \<Rightarrow> False)
      | _ \<Rightarrow> False)"
  by pat_completeness auto
termination
  by (relation "measure (\<lambda>(a, b). size a)")
     (auto simp add: less_Suc_eq_le intro: size_list_estimation')

declare py_eq.simps [simp del]

text \<open>Whether \<^verbatim>\<open>hash(v)\<close> returns: lists, dicts and sets are unhashable.\<close>

fun py_hashable :: "pyval \<Rightarrow> bool" where
  "py_hashable (VList xs) = False"
| "py_hashable (VDict d) = False"
| "py_hashable (VSet xs) = False"
| "py_hashable (VTuple xs) = list_all py_hashable xs"
| "py_hashable v = True"

text \<open>\<^verbatim>\<open>if v:\<close>, the truth value of an object.\<close>

fun py_truth :: "pyval \<Rightarrow> bool" where
  "py_truth VNone = False"
| "py_truth (VBool x) = x"
| "py_truth (VInt i) = (i \<noteq> 0)"
| "py_truth (VFloat f) = (\<not> float_eq_int f 0)"
| "py_truth (VBytes x) = (x \<noteq> [])"
| "py_truth (VStr x) = (x \<noteq> [])"
| "py_truth (VList xs) = (xs \<noteq> [])"
| "py_truth (VDict d) = (d \<noteq> [])"
| "py_truth (VTuple xs) = (xs \<noteq> [])"
| "py_truth (VSet xs) = (xs \<noteq> [])"
| "py_truth (VFrozenset xs) = (xs \<noteq> [])"
| "py_truth v = True"

text \<open>
  \<^verbatim>\<open>d[key] = v\<close> on the items of a dict: the value of an equal key is replaced, a new key
  is added last.
\<close>

fun dict_setitem :: "(pyval \<times> pyval) list \<Rightarrow> pyval \<Rightarrow> pyval \<Rightarrow> (pyval \<times> pyval) list" where
  "dict_setitem [] key v = [(key, v)]"
| "dict_setitem ((k', v') # d) key v =
     (if py_eq k' key then (k', v) # d else (k', v') # dict_setitem d key v)"

text \<open>\<^verbatim>\<open>set(tup)\<close>: the elements of the tuple, each once.\<close>

definition set_add :: "pyval list \<Rightarrow> pyval \<Rightarrow> pyval list" where
  "set_add s x = (if list_ex (\<lambda>y. py_eq y x) s then s else s @ [x])"

definition py_set :: "pyval list \<Rightarrow> exn + pyval list" where
  "py_set tup = (if list_all py_hashable tup then Inr (foldl set_add [] tup) else Inl TypeError)"

text \<open>
  \<^verbatim>\<open>container[key] = v\<close>: on a list the key is an index (a \<^verbatim>\<open>bool\<close> is an \<^verbatim>\<open>int\<close>), counted
  from the end when negative; on a dict the key must be hashable; the other values the
  unserializer builds support no item assignment.
\<close>

definition list_setitem :: "pyval list \<Rightarrow> int \<Rightarrow> pyval \<Rightarrow> exn + pyval list" where
  "list_setitem L i v =
     (let j = (if i < 0 then i + int (length L) else i)
      in if 0 \<le> j \<and> j < int (length L) then Inr (L[nat j := v]) else Inl IndexError)"

definition py_setitem :: "pyval \<Rightarrow> pyval \<Rightarrow> pyval \<Rightarrow> exn + pyval" where
  "py_setitem container key v =
     (case container of
        VList L \<Rightarrow>
          (case key of
             VInt i \<Rightarrow> map_sum (\<lambda>e. e) VList (list_setitem L i v)
           | VBool x \<Rightarrow> map_sum (\<lambda>e. e) VList (list_setitem L (int_of_bool x) v)
           | _ \<Rightarrow> Inl TypeError)
      | VDict d \<Rightarrow> (if py_hashable key then Inr (VDict (dict_setitem d key v)) else Inl TypeError)
      | _ \<Rightarrow> Inl TypeError)"

section \<open>The unserializer\<close>

text \<open>
  \<open>stream\<close> is what the transport still has to deliver; the top of \<open>stack\<close> is its last
  element, as in the Python list.
\<close>

record unserializer =
  stream :: bytes
  stack :: "pyval list"
  py2str_as_py3str :: bool
  py3str_as_py2str :: bool
  channelfactory :: "gateway option"


text \<open>\<^verbatim>\<open>self.stream.read(n)\<close>\<close>

definition stream_read :: "unserializer \<Rightarrow> int \<Rightarrow> exn + (bytes \<times> unserializer)" where
  "stream_read u n =
     (case Popen2IO_read (stream u) n of
        Inl e \<Rightarrow> Inl e
      | Inr (data', rest) \<Rightarrow> Inr (data', u\<lparr>stream := rest\<rparr>))"

definition push :: "pyval \<Rightarrow> unserializer \<Rightarrow> unserializer" where
  "push v u = u\<lparr>stack := stack u @ [v]\<rparr>"

definition u_read_int4 :: "unserializer \<Rightarrow> exn + (int \<times> unserializer)" where
  "u_read_int4 u =
     (case stream_read u 4 of
        Inl e \<Rightarrow> Inl e
      | Inr (data', u') \<Rightarrow>
          (case struct_unpack_i data' of Inl e \<Rightarrow> Inl e | Inr i \<Rightarrow> Inr (i, u')))"

definition u_read_byte_string :: "unserializer \<Rightarrow> exn + (bytes \<times> unserializer)" where
  "u_read_byte_string u =
     (case u_read_int4 u of
        Inl e \<Rightarrow> Inl e
      | Inr (length', u') \<Rightarrow> stream_read u' length')"

definition load_none :: "unserializer \<Rightarrow> exn + unserializer" where
  "load_none u = Inr (push VNone u)"

definition load_true :: "unserializer \<Rightarrow> exn + unserializer" where
  "load_true u = Inr (push (VBool True) u)"

definition load_false :: "unserializer \<Rightarrow> exn + unserializer" where
  "load_false u = Inr (push (VBool False) u)"

definition load_int :: "unserializer \<Rightarrow> exn + unserializer" where
  "load_int u =
     (case u_read_int4 u of Inl e \<Rightarrow> Inl e | Inr (i, u') \<Rightarrow> Inr (push (VInt i) u'))"

definition load_longint :: "unserializer \<Rightarrow> exn + unserializer" where
  "load_longint u =
     (case u_read_byte_string u of
        Inl e \<Rightarrow> Inl e
      | Inr (s, u') \<Rightarrow>
          (case int_of_bytes s of Inl e \<Rightarrow> Inl e | Inr i \<Rightarrow> Inr (push (VInt i) u')))"

definition load_float :: "unserializer \<Rightarrow> exn + unserializer" where
  "load_float u =
     (case stream_read u (int FLOAT_FORMAT_SIZE) of
        Inl e \<Rightarrow> Inl e
      | Inr (binary, u') \<Rightarrow>
          (case struct_unpack_d binary of Inl e \<Rightarrow> Inl e | Inr f \<Rightarrow> Inr (push (VFloat f) u')))"

definition load_py3string :: "unserializer \<Rightarrow> exn + unserializer" where
  "load_py3string u =
     (case u_read_byte_string u of
        Inl e \<Rightarrow> Inl e
      | Inr (as_bytes, u') \<Rightarrow>
          if \<not> ISPY3 \<and> py3str_as_py2str u' then Inr (push (VBytes as_bytes) u')
          else (case utf8_decode as_bytes of
                  Inl e \<Rightarrow> Inl e
                | Inr s \<Rightarrow> Inr (push (VStr s) u')))"

definition load_py2string :: "unserializer \<Rightarrow> exn + unserializer" where
  "load_py2string u =
     (case u_read_byte_string u of
        Inl e \<Rightarrow> Inl e
      | Inr (as_bytes, u') \<Rightarrow>
          if ISPY3 \<and> py2str_as_py3str u' then Inr (push (VStr (latin1_decode as_bytes)) u')
          else Inr (push (VBytes as_bytes) u'))"

definition load_bytes :: "unserializer \<Rightarrow> exn + unserializer" where
  "load_bytes u =
     (case u_read_byte_string u of Inl e \<Rightarrow> Inl e | Inr (s, u') \<Rightarrow> Inr (push (VBytes s) u'))"

definition load_unicode :: "unserializer \<Rightarrow> exn + unserializer" where
  "load_unicode u =
     (case u_read_byte_string u of
        Inl e \<Rightarrow> Inl e
      | Inr (as_bytes, u') \<Rightarrow>
          (case utf8_decode as_bytes of Inl e \<Rightarrow> Inl e | Inr s \<Rightarrow> Inr (push (VStr s) u')))"

text \<open>\<^verbatim>\<open>[None] * length\<close> is the empty list for a length that is not positive.\<close>

definition load_newlist :: "unserializer \<Rightarrow> exn + unserializer" where
  "load_newlist u =
     (case u_read_int4 u of
        Inl e \<Rightarrow> Inl e
      | Inr (length', u') \<Rightarrow> Inr (push (VList (replicate (nat length') VNone)) u'))"

definition load_setitem :: "unserializer \<Rightarrow> exn + unserializer" where
  "load_setitem u =
     (if length (stack u) < 3 then Inl (UnserializationError ''not enough items for setitem'')
      else
        let v = last (stack u);
            key = last (butlast (stack u));
            below = butlast (butlast (stack u))
        in (case py_setitem (last below) key v of
              Inl e \<Rightarrow> Inl e
            | Inr container \<Rightarrow> Inr (u\<lparr>stack := butlast below @ [container]\<rparr>)))"

definition load_newdict :: "unserializer \<Rightarrow> exn + unserializer" where
  "load_newdict u = Inr (push (VDict []) u)"

text \<open>
  The index at which the slice \<^verbatim>\<open>stack[start:]\<close> begins: a negative \<open>start\<close> counts from
  the end, and the index is clipped to the list.
\<close>

definition slice_start :: "int \<Rightarrow> nat \<Rightarrow> nat" where
  "slice_start start n =
     (if start < 0 then nat (max 0 (int n + start)) else nat (min start (int n)))"

text \<open>\<^verbatim>\<open>_load_tuple\<close> returns the elements of the tuple.\<close>

definition u_load_tuple :: "unserializer \<Rightarrow> exn + (pyval list \<times> unserializer)" where
  "u_load_tuple u =
     (case u_read_int4 u of
        Inl e \<Rightarrow> Inl e
      | Inr (length', u') \<Rightarrow>
          if length' \<noteq> 0 then
            let k = slice_start (- length') (length (stack u'))
            in Inr (drop k (stack u'), u'\<lparr>stack := take k (stack u')\<rparr>)
          else Inr ([], u'))"

definition load_buildtuple :: "unserializer \<Rightarrow> exn + unserializer" where
  "load_buildtuple u =
     (case u_load_tuple u of Inl e \<Rightarrow> Inl e | Inr (tup, u') \<Rightarrow> Inr (push (VTuple tup) u'))"

definition load_set :: "unserializer \<Rightarrow> exn + unserializer" where
  "load_set u =
     (case u_load_tuple u of
        Inl e \<Rightarrow> Inl e
      | Inr (tup, u') \<Rightarrow>
          (case py_set tup of Inl e \<Rightarrow> Inl e | Inr s \<Rightarrow> Inr (push (VSet s) u')))"

definition load_frozenset :: "unserializer \<Rightarrow> exn + unserializer" where
  "load_frozenset u =
     (case u_load_tuple u of
        Inl e \<Rightarrow> Inl e
      | Inr (tup, u') \<Rightarrow>
          (case py_set tup of Inl e \<Rightarrow> Inl e | Inr s \<Rightarrow> Inr (push (VFrozenset s) u')))"

definition load_stop :: "unserializer \<Rightarrow> exn + unserializer" where
  "load_stop u = Inl U_Stop"

text \<open>
  \<^verbatim>\<open>load_channel\<close>; without a channel factory \<^verbatim>\<open>self.channelfactory.new\<close> is an attribute
  of \<^verbatim>\<open>None\<close>.
\<close>

definition load_channel :: "unserializer \<Rightarrow> exn + unserializer" where
  "load_channel u =
     (case u_read_int4 u of
        Inl e \<Rightarrow> Inl e
      | Inr (id', u') \<Rightarrow>
          (case channelfactory u' of
             None \<Rightarrow> Inl AttributeError
           | Some g \<Rightarrow>
               (case new g (Some id') of
                  (Returns newchannel, g') \<Rightarrow>
                    Inr (push (VChannel id') (u'\<lparr>channelfactory := Some g'\<rparr>))
                | (Raises e, g') \<Rightarrow> Inl e
                | (Blocks, g') \<Rightarrow> Inl TypeError)))"

text \<open>\<^verbatim>\<open>loader(self)\<close> for a function found in \<^verbatim>\<open>num2func\<close>.\<close>

fun call_loader :: "loader \<Rightarrow> unserializer \<Rightarrow> exn + unserializer" where
  "call_loader LoadNone u = load_none u"
| "call_loader LoadTrue u = load_true u"
| "call_loader LoadFalse u = load_false u"
| "call_loader LoadInt u = load_int u"
| "call_loader LoadLongint u = load_longint u"
| "call_loader LoadFloat u = load_float u"
| "call_loader LoadPy3string u = load_py3string u"
| "call_loader LoadPy2string u = load_py2string u"
| "call_loader LoadBytes u = load_bytes u"
| "call_loader LoadUnicode u = load_unicode u"
| "call_loader LoadNewlist u = load_newlist u"
| "call_loader LoadSetitem u = load_setitem u"
| "call_loader LoadNewdict u = load_newdict u"
| "call_loader LoadBuildtuple u = load_buildtuple u"
| "call_loader LoadSet u = load_set u"
| "call_loader LoadFrozenset u = load_frozenset u"
| "call_loader LoadStop u = load_stop u"
| "call_loader LoadChannel u = load_channel u"
| "call_loader OtherAttribute u = Inl TypeError"

lemma stream_read_length:
  "stream_read u n = Inr (d, u') \<Longrightarrow> length (stream u') \<le> length (stream u)"
  by (auto simp add: stream_read_def Popen2IO_read_def split: if_splits sum.splits)

lemma u_read_int4_length:
  "u_read_int4 u = Inr (i, u') \<Longrightarrow> length (stream u') \<le> length (stream u)"
  by (auto simp add: u_read_int4_def split: sum.splits dest: stream_read_length)

lemma u_read_byte_string_length:
  "u_read_byte_string u = Inr (s, u') \<Longrightarrow> length (stream u') \<le> length (stream u)"
  by (auto simp add: u_read_byte_string_def split: sum.splits
      dest!: stream_read_length u_read_int4_length)

lemma u_load_tuple_length:
  "u_load_tuple u = Inr (t, u') \<Longrightarrow> length (stream u') \<le> length (stream u)"
  by (auto simp add: u_load_tuple_def Let_def split: sum.splits if_splits
      dest!: u_read_int4_length)

lemma call_loader_length:
  "call_loader l u = Inr u' \<Longrightarrow> length (stream u') \<le> length (stream u)"
  by (cases l)
     (auto simp add: load_none_def load_true_def load_false_def load_int_def load_longint_def
        load_float_def load_py3string_def load_py2string_def load_bytes_def load_unicode_def
        load_newlist_def load_setitem_def load_newdict_def load_buildtuple_def load_set_def
        load_frozenset_def load_stop_def load_channel_def push_def Let_def
      split: sum.splits if_splits option.splits prod.splits outcome.splits
      dest!: stream_read_length u_read_int4_length u_read_byte_string_length u_load_tuple_length)

text \<open>
  The loop of \<^verbatim>\<open>load\<close>: it ends with an exception only, \<^verbatim>\<open>_Stop\<close> among them. The result
  is the exception, and the unserializer when the loader that raised it was called.
\<close>

function load_loop :: "unserializer \<Rightarrow> exn \<times> unserializer" where
  "load_loop u =
     (case stream_read u 1 of
        Inl e \<Rightarrow> (e, u)
      | Inr (opcode', u') \<Rightarrow>
          if opcode' = [] then (EOFError, u')
          else (case num2func (hd opcode') of
                  None \<Rightarrow> (UnserializationError ''unkown opcode'', u')
                | Some loader \<Rightarrow>
                    (case call_loader loader u' of
                       Inl e \<Rightarrow> (e, u')
                     | Inr u'' \<Rightarrow> load_loop u'')))"
  by pat_completeness auto
termination
proof (relation "measure (\<lambda>u. length (stream u))")
  show "wf (measure (\<lambda>u. length (stream u)))" by simp
next
  fix u x2 opcode' u' loader u''
  assume r: "stream_read u 1 = Inr x2" "(opcode', u') = x2" "opcode' \<noteq> []"
    and c: "call_loader loader u' = Inr u''"
  from r have "length (stream u') < length (stream u)"
    by (auto simp add: stream_read_def Popen2IO_read_def split: if_splits)
  with call_loader_length [OF c] show "(u'', u) \<in> measure (\<lambda>u. length (stream u))"
    by simp
qed

declare load_loop.simps [simp del]

text \<open>
  \<^verbatim>\<open>Unserializer.load\<close>. The \<^verbatim>\<open>else\<close> clause of its \<^verbatim>\<open>try\<close> is never reached: the loop is
  left by an exception only.
\<close>

definition load :: "unserializer \<Rightarrow> pyval outcome \<times> unserializer" where
  "load u =
     (case load_loop (u\<lparr>stack := []\<rparr>) of
        (e, u') \<Rightarrow>
          if e = U_Stop then
            (if length (stack u') \<noteq> 1
             then (Raises (UnserializationError ''internal unserialization error''), u')
             else (Returns (hd (stack u')), u'\<lparr>stack := tl (stack u')\<rparr>))
          else (Raises e, u'))"


section \<open>The gateway sends a message\<close>

text \<open>
  \<^verbatim>\<open>Message.writeto\<close> saves the tuple \<^verbatim>\<open>(msgtype, channelid, data)\<close>; \<^verbatim>\<open>BaseGateway._send\<close>
  writes the message to the serializer of the gateway.
\<close>

definition message_tuple :: "message \<Rightarrow> pyval" where
  "message_tuple msg = VTuple [VInt (msgtype (msgclass msg)), VInt (channelid msg), data msg]"

definition writeto :: "message \<Rightarrow> serializer \<Rightarrow> exn option \<times> serializer" where
  "writeto msg ser = save ser (message_tuple msg)"

definition u_send :: "gateway \<Rightarrow> message \<Rightarrow> unit outcome \<times> gateway" where
  "u_send g msg =
     (case writeto msg (u_serializer g) of
        (Some e, ser) \<Rightarrow> (Raises e, g\<lparr>u_serializer := ser\<rparr>)
      | (None, ser) \<Rightarrow> (Returns (), g\<lparr>u_serializer := ser\<rparr>))"

text \<open>What the transport of the gateway has received, one entry for each write.\<close>

definition wire :: "gateway \<Rightarrow> bytes list" where
  "wire g = outfile (u_stream (u_serializer g))"

text \<open>The bytes of a message on the wire, when its tuple can be serialized.\<close>

definition frame :: "message \<Rightarrow> bytes" where
  "frame msg = concat (snd (andthen (u_save (message_tuple msg)) (u_write [op ''STOP''])))"

section \<open>The channel factory\<close>





text \<open>\<^verbatim>\<open>ChannelFactory.channels\<close>: the references of the channels in \<^verbatim>\<open>_channels\<close>.\<close>

definition channels :: "gateway \<Rightarrow> nat list" where
  "channels g = map snd (u_channels g)"

section \<open>The methods of a channel\<close>

text \<open>
  A method of the channel with the reference \<open>self\<close> takes the gateway, which holds the
  object, and returns its result with the gateway afterwards.
\<close>

definition set_channel :: "nat \<Rightarrow> channel \<Rightarrow> gateway \<Rightarrow> gateway" where
  "set_channel self ch g = g\<lparr>channel_objects := (channel_objects g)(self := ch)\<rparr>"





text \<open>
  What \<^verbatim>\<open>_getremoteerror\<close> returns: the first of the remote errors, which it removes from
  the list, or the error of the gateway, or \<^verbatim>\<open>None\<close>.
\<close>

datatype error_object = NoError | QueuedError pyval | GatewayError exn

definition u_getremoteerror :: "gateway \<Rightarrow> nat \<Rightarrow> error_object \<times> gateway" where
  "u_getremoteerror g self =
     (let ch = channel_objects g self in
      case u_remoteerrors ch of
        e # errors \<Rightarrow> (QueuedError e, set_channel self (ch\<lparr>u_remoteerrors := errors\<rparr>) g)
      | [] \<Rightarrow> (case u_error g of Some e \<Rightarrow> (GatewayError e, g) | None \<Rightarrow> (NoError, g)))"

text \<open>
  \<^verbatim>\<open>raise obj or EOFError()\<close>: a false object gives way to the \<^verbatim>\<open>EOFError\<close>; raising an
  object that is no exception is a \<^verbatim>\<open>TypeError\<close>.
\<close>

definition raise_or_EOFError :: "error_object \<Rightarrow> exn" where
  "raise_or_EOFError obj =
     (case obj of
        NoError \<Rightarrow> EOFError
      | GatewayError e \<Rightarrow> e
      | QueuedError v \<Rightarrow>
          (if py_truth v then (case v of VRemoteError t \<Rightarrow> RemoteErrorExn t | _ \<Rightarrow> TypeError)
           else EOFError))"

text \<open>
  \<^verbatim>\<open>Channel.receive(timeout)\<close>, with no other thread running: \<^verbatim>\<open>itemqueue.get\<close> on an
  empty queue raises \<^verbatim>\<open>queue.Empty\<close> when its timeout has passed, and the loop asks again
  for ever when \<open>timeout < 0\<close>.
\<close>

definition receive :: "gateway \<Rightarrow> nat \<Rightarrow> real \<Rightarrow> pyval outcome \<times> gateway" where
  "receive g self timeout =
     (let ch = channel_objects g self in
      case u_items ch of
        None \<Rightarrow> (Raises (IOError ''cannot receive(), channel has receiver callback''), g)
      | Some [] \<Rightarrow> (if timeout < 0 then (Blocks, g) else (Raises TimeoutError, g))
      | Some (x # rest) \<Rightarrow>
          (case x of
             ENDMARKER \<Rightarrow>
               (let g1 = set_channel self (ch\<lparr>u_items := Some (rest @ [ENDMARKER])\<rparr>) g;
                    (obj, g2) = u_getremoteerror g1 self
                in (Raises (raise_or_EOFError obj), g2))
           | Item v \<Rightarrow> (Returns v, set_channel self (ch\<lparr>u_items := Some rest\<rparr>) g)))"



text \<open>
  \<^verbatim>\<open>RemoteError.warn\<close> writes one line to \<^verbatim>\<open>sys.stderr\<close>; an object that is no
  \<^verbatim>\<open>RemoteError\<close> has no such method.
\<close>

definition warn :: "pyval \<Rightarrow> gateway \<Rightarrow> unit outcome \<times> gateway" where
  "warn error g =
     (case error of
        VRemoteError formatted \<Rightarrow>
          (Returns (),
           g\<lparr>stderr := stderr g @ [''Warning: unhandled RemoteError: '' @ formatted @ [CHR 10]]\<rparr>)
      | _ \<Rightarrow> (Raises AttributeError, g))"

fun warn_all :: "pyval list \<Rightarrow> gateway \<Rightarrow> unit outcome \<times> gateway" where
  "warn_all [] g = (Returns (), g)"
| "warn_all (error # errors) g =
     (case warn error g of (Returns x, g1) \<Rightarrow> warn_all errors g1 | (r, g1) \<Rightarrow> (r, g1))"

text \<open>
  \<^verbatim>\<open>except (IOError, ValueError)\<close>: \<^verbatim>\<open>TimeoutError\<close> is a subclass of \<^verbatim>\<open>IOError\<close>, the
  Unicode errors are subclasses of \<^verbatim>\<open>ValueError\<close>.
\<close>

definition is_IOError_or_ValueError :: "exn \<Rightarrow> bool" where
  "is_IOError_or_ValueError e =
     (case e of
        IOError m \<Rightarrow> True | TimeoutError \<Rightarrow> True | ValueError \<Rightarrow> True
      | UnicodeEncodeError \<Rightarrow> True | UnicodeDecodeError \<Rightarrow> True | _ \<Rightarrow> False)"

text \<open>\<^verbatim>\<open>Channel.__del__\<close>, of a channel that has a gateway.\<close>

definition u_del :: "gateway \<Rightarrow> nat \<Rightarrow> unit outcome \<times> gateway" where
  "u_del g self =
     (let ch = channel_objects g self in
      if u_closed ch then warn_all (u_remoteerrors ch) g
      else if u_receiveclosed ch then (Returns (), g)
      else
        (let Msg' = (if u_items ch = None then CHANNEL_LAST_MESSAGE else CHANNEL_CLOSE)
         in (case u_send g (Msg Msg' (cid ch)) of
               (Raises e, g1) \<Rightarrow>
                 if is_IOError_or_ValueError e then (Returns (), g1) else (Raises e, g1)
             | (r, g1) \<Rightarrow> (r, g1))))"

text \<open>
  The last strong reference to a channel is dropped: \<^verbatim>\<open>__del__\<close> runs, and the weak
  dictionary \<^verbatim>\<open>_channels\<close> loses the entries of the object.
\<close>

definition drop_last_reference :: "gateway \<Rightarrow> nat \<Rightarrow> unit outcome \<times> gateway" where
  "drop_last_reference g self =
     (case u_del g self of
        (r, g1) \<Rightarrow> (r, g1\<lparr>u_channels := filter (\<lambda>(id', ref). ref \<noteq> self) (u_channels g1)\<rparr>))"

section \<open>The message \<^verbatim>\<open>STATUS\<close>\<close>

text \<open>A Python \<^verbatim>\<open>str\<close> with the characters of an ASCII string.\<close>

definition str :: "string \<Rightarrow> pyval" where
  "str s = VStr (map of_char s)"

text \<open>
  \<^verbatim>\<open>STATUS.received(gateway)\<close>, for the message with the channel id \<open>channelid'\<close>. A gateway
  without the attribute \<^verbatim>\<open>_execqueue\<close> raises \<^verbatim>\<open>AttributeError\<close> when the dict is built.
\<close>

definition STATUS_received :: "int \<Rightarrow> gateway \<Rightarrow> unit outcome \<times> gateway" where
  "STATUS_received channelid' g =
     (let active_channels = channels g;
          numexec = length (filter (\<lambda>ch. u_executing (channel_objects g ch)) active_channels)
      in (case u_execqueue g of
            None \<Rightarrow> (Raises AttributeError, g)
          | Some execqueue \<Rightarrow>
              let d = VDict [(str ''execqsize'', VInt (int (length execqueue))),
                             (str ''numchannels'', VInt (int (length active_channels))),
                             (str ''numexecuting'', VInt (int numexec))]
              in u_send g (Msg_data CHANNEL_DATA channelid' d)))"

section \<open>Messages that close a channel from the other side\<close>



text \<open>
  \<^verbatim>\<open>BaseGateway.__init__(io, id, _startcount)\<close> with its serializer and its channel
  factory: no channel yet, no attribute \<^verbatim>\<open>_error\<close> or \<^verbatim>\<open>_execqueue\<close>.
\<close>

definition BaseGateway_init :: "popen2io \<Rightarrow> int \<Rightarrow> gateway" where
  "BaseGateway_init io startcount =
     \<lparr>u_serializer = \<lparr>WRITE_ON_SUCCESS = True, streamlist = [], u_stream = io\<rparr>,
      channel_objects = (\<lambda>r. Channel_init 0),
      next_object = 0,
      u_channels = [],
      u_callbacks = [],
      count = startcount,
      finished = False,
      u_error = None,
      u_execqueue = None,
      stderr = [],
      callback_calls = []\<rparr>"







text \<open>
  States to try the methods on: a transport that works and has received nothing, and a
  gateway of start count 1 whose only channel, of the reference 0, is \<open>ch\<close>.
\<close>

definition fresh_io :: popen2io where
  "fresh_io = \<lparr>outfile = [], outfile_error = None, infile = []\<rparr>"

definition gateway_with :: "channel \<Rightarrow> gateway" where
  "gateway_with ch =
     (BaseGateway_init fresh_io 1)
       \<lparr>channel_objects := (\<lambda>r. ch), next_object := 1, u_channels := [(cid ch, 0)], count := 3\<rparr>"


section \<open>Facts about the opcode table\<close>

lemma sorted_loaders_value:
  "sorted_loaders Unserializer_dict =
     [(''BUILDTUPLE'', LoadBuildtuple), (''BYTES'', LoadBytes), (''CHANNEL'', LoadChannel),
      (''FALSE'', LoadFalse), (''FLOAT'', LoadFloat), (''FROZENSET'', LoadFrozenset),
      (''INT'', LoadInt), (''LONG'', LoadInt), (''LONGINT'', LoadLongint),
      (''LONGLONG'', LoadLongint), (''NEWDICT'', LoadNewdict), (''NEWLIST'', LoadNewlist),
      (''NONE'', LoadNone), (''PY2STRING'', LoadPy2string), (''PY3STRING'', LoadPy3string),
      (''SET'', LoadSet), (''SETITEM'', LoadSetitem), (''STOP'', LoadStop),
      (''TRUE'', LoadTrue), (''UNICODE'', LoadUnicode)]"
  by code_simp

lemma buildopcodes_value:
  "buildopcodes Unserializer_dict =
     ([(CHR ''@'', LoadBuildtuple), (CHR ''A'', LoadBytes), (CHR ''B'', LoadChannel),
       (CHR ''C'', LoadFalse), (CHR ''D'', LoadFloat), (CHR ''E'', LoadFrozenset),
       (CHR ''F'', LoadInt), (CHR ''G'', LoadInt), (CHR ''H'', LoadLongint),
       (CHR ''I'', LoadLongint), (CHR ''J'', LoadNewdict), (CHR ''K'', LoadNewlist),
       (CHR ''L'', LoadNone), (CHR ''M'', LoadPy2string), (CHR ''N'', LoadPy3string),
       (CHR ''O'', LoadSet), (CHR ''P'', LoadSetitem), (CHR ''Q'', LoadStop),
       (CHR ''R'', LoadTrue), (CHR ''S'', LoadUnicode)],
      [(''BUILDTUPLE'', CHR ''@''), (''BYTES'', CHR ''A''), (''CHANNEL'', CHR ''B''),
       (''FALSE'', CHR ''C''), (''FLOAT'', CHR ''D''), (''FROZENSET'', CHR ''E''),
       (''INT'', CHR ''F''), (''LONG'', CHR ''G''), (''LONGINT'', CHR ''H''),
       (''LONGLONG'', CHR ''I''), (''NEWDICT'', CHR ''J''), (''NEWLIST'', CHR ''K''),
       (''NONE'', CHR ''L''), (''PY2STRING'', CHR ''M''), (''PY3STRING'', CHR ''N''),
       (''SET'', CHR ''O''), (''SETITEM'', CHR ''P''), (''STOP'', CHR ''Q''),
       (''TRUE'', CHR ''R''), (''UNICODE'', CHR ''S'')])"
  by code_simp

lemma op_values:
  "op ''BUILDTUPLE'' = CHR ''@''" "op ''BYTES'' = CHR ''A''" "op ''CHANNEL'' = CHR ''B''"
  "op ''FALSE'' = CHR ''C''" "op ''FLOAT'' = CHR ''D''" "op ''FROZENSET'' = CHR ''E''"
  "op ''INT'' = CHR ''F''" "op ''LONG'' = CHR ''G''" "op ''LONGINT'' = CHR ''H''"
  "op ''LONGLONG'' = CHR ''I''" "op ''NEWDICT'' = CHR ''J''" "op ''NEWLIST'' = CHR ''K''"
  "op ''NONE'' = CHR ''L''" "op ''PY2STRING'' = CHR ''M''" "op ''PY3STRING'' = CHR ''N''"
  "op ''SET'' = CHR ''O''" "op ''SETITEM'' = CHR ''P''" "op ''STOP'' = CHR ''Q''"
  "op ''TRUE'' = CHR ''R''" "op ''UNICODE'' = CHR ''S''"
  by (simp_all add: op_def opcode_def buildopcodes_value)

lemma opcode_names_sorted:
  "sorted opcode_names \<and> distinct opcode_names \<and> length opcode_names = 20"
  by code_simp

lemma names_of_sorted_loaders: "map fst (sorted_loaders Unserializer_dict) = opcode_names"
  unfolding sorted_loaders_value opcode_names_def by simp

lemma sort_key_fst_unique:
  assumes "set xs = set ys" "distinct (map fst xs)" "distinct (map fst ys)"
  shows "sort_key fst xs = sort_key fst (ys :: (string \<times> 'a) list)"
proof (rule map_sorted_distinct_set_unique [where f = fst])
  show "inj_on fst (set (sort_key fst xs) \<union> set (sort_key fst ys))"
    using assms by (simp add: distinct_map)
  show "sorted (map fst (sort_key fst xs))" "sorted (map fst (sort_key fst ys))" by simp_all
  show "distinct (map fst (sort_key fst xs))" using assms(2) by (simp add: distinct_map)
  show "distinct (map fst (sort_key fst ys))" using assms(3) by (simp add: distinct_map)
  show "set (sort_key fst xs) = set (sort_key fst ys)" using assms(1) by simp
qed

lemma loader_names_distinct:
  "distinct (map fst (map (\<lambda>(name, func). (upper (drop 5 name), func))
      (filter (\<lambda>(name, func). startswith name ''load_'') Unserializer_dict)))"
  by code_simp

lemma sorted_loaders_order_independent:
  assumes "set attrs = set Unserializer_dict" "distinct (map fst attrs)"
  shows "sorted_loaders attrs = sorted_loaders Unserializer_dict"
proof -
  let ?P = "\<lambda>(name, func :: loader). startswith name ''load_''"
  let ?g = "\<lambda>(name, func :: loader). (upper (drop 5 name), func)"
  have s: "set (map ?g (filter ?P attrs)) = set (map ?g (filter ?P Unserializer_dict))"
    using assms(1) by simp
  have da: "distinct (filter ?P attrs)" using assms(2) by (simp add: distinct_map)
  have "distinct (map (fst \<circ> ?g) (filter ?P Unserializer_dict))"
    using loader_names_distinct by simp
  then have "inj_on (fst \<circ> ?g) (set (filter ?P Unserializer_dict))"
    by (simp only: distinct_map)
  then have "inj_on (fst \<circ> ?g) (set (filter ?P attrs))"
    using assms(1) by simp
  with da have "distinct (map (fst \<circ> ?g) (filter ?P attrs))"
    by (simp only: distinct_map simp_thms)
  then have d: "distinct (map fst (map ?g (filter ?P attrs)))"
    by simp
  show ?thesis
    using sort_key_fst_unique [OF s d loader_names_distinct]
    by (simp add: sorted_loaders_def)
qed

section \<open>Facts about the serializer\<close>

lemma andthen_simps [simp]:
  "andthen (None, w1) (r, w2) = (r, w1 @ w2)"
  "andthen (Some e, w1) r2 = (Some e, w1)"
  by (simp_all add: andthen_def)

lemma digit_char_not_L: "0 \<le> d \<Longrightarrow> d < 10 \<Longrightarrow> digit_char d \<noteq> CHR ''L''"
proof
  assume a: "0 \<le> d" "d < 10" and e: "digit_char d = CHR ''L''"
  from e have "(of_char (digit_char d) :: int) = of_char (CHR ''L'')" by simp
  with a show False by (simp add: digit_char_def)
qed

lemma str_digits_last:
  "0 \<le> n \<Longrightarrow> str_digits n \<noteq> [] \<and> last (str_digits n) = digit_char (n mod 10)"
  by (subst (1 2) str_digits.simps) simp

lemma rstrip_L_id: "s \<noteq> [] \<Longrightarrow> last s \<noteq> CHR ''L'' \<Longrightarrow> rstrip_L s = s"
  by (cases s rule: rev_cases) (simp_all add: rstrip_L_def)

lemma str_digits_no_L:
  "0 \<le> n \<Longrightarrow> str_digits n \<noteq> [] \<and> last (str_digits n) \<noteq> CHR ''L''"
  using str_digits_last [of n] digit_char_not_L [of "n mod 10"] by simp

lemma rstrip_L_str_int: "rstrip_L (str_int i) = str_int i"
proof (cases "i < 0")
  case True
  then show ?thesis
    using str_digits_no_L [of "- i"] by (simp add: str_int_def rstrip_L_id)
next
  case False
  then show ?thesis
    using str_digits_no_L [of i] by (simp add: str_int_def rstrip_L_id)
qed

section \<open>Facts about the unserializer\<close>

text \<open>
  A read or a loader that succeeds consumes a piece \<open>ck\<close> of the stream, does the same
  whatever follows that piece, and raises \<^verbatim>\<open>EOFError\<close> on a stream that ends inside it.
\<close>
lemma stream_read_Inr:
  "stream_read u n = Inr (d, u') \<Longrightarrow>
     \<exists>r. stream u = d @ r \<and> u' = u\<lparr>stream := r\<rparr> \<and> int (length d) = max 0 n"
  by (rule exI [of _ "drop (length d) (stream u)"])
     (auto simp add: stream_read_def Popen2IO_read_def min_def split: if_splits)

lemma stream_read_trunc:
  assumes "stream_read u n = Inr (d, u')"
  shows "stream u = d @ stream u'"
    and "stream_read (u\<lparr>stream := d @ s\<rparr>) n = Inr (d, u'\<lparr>stream := s\<rparr>)"
    and "d = p @ q \<Longrightarrow> q \<noteq> [] \<Longrightarrow> stream_read (u\<lparr>stream := p\<rparr>) n = Inl EOFError"
proof -
  from stream_read_Inr [OF assms] obtain r where
    a: "stream u = d @ r" "u' = u\<lparr>stream := r\<rparr>" "int (length d) = max 0 n"
    by blast
  show "stream u = d @ stream u'" using a by simp
  show "stream_read (u\<lparr>stream := d @ s\<rparr>) n = Inr (d, u'\<lparr>stream := s\<rparr>)"
    using a by (auto simp add: stream_read_def Popen2IO_read_def max_def split: if_splits)
  show "stream_read (u\<lparr>stream := p\<rparr>) n = Inl EOFError" if "d = p @ q" "q \<noteq> []"
  proof -
    from that have "length p < length d" by simp
    with a show ?thesis
      by (auto simp add: stream_read_def Popen2IO_read_def max_def split: if_splits)
  qed
qed

lemma u_read_int4_trunc:
  assumes "u_read_int4 u = Inr (i, u')"
  shows "\<exists>ck. stream u = ck @ stream u'
     \<and> (\<forall>s. u_read_int4 (u\<lparr>stream := ck @ s\<rparr>) = Inr (i, u'\<lparr>stream := s\<rparr>))
     \<and> (\<forall>p q. ck = p @ q \<and> q \<noteq> [] \<longrightarrow> u_read_int4 (u\<lparr>stream := p\<rparr>) = Inl EOFError)"
proof -
  from assms obtain d where r: "stream_read u 4 = Inr (d, u')" and i: "struct_unpack_i d = Inr i"
    by (auto simp add: u_read_int4_def split: sum.splits)
  show ?thesis
    using stream_read_trunc [OF r] i
    by (intro exI [of _ d]) (auto simp add: u_read_int4_def)
qed

























lemma load_reraises:
  "load_loop (u\<lparr>stack := []\<rparr>) = (e, u') \<Longrightarrow> e \<noteq> U_Stop \<Longrightarrow> load u = (Raises e, u')"
  by (simp add: load_def)



section \<open>Facts about channels\<close>

lemma set_channel_same [simp]: "channel_objects (set_channel self ch g) self = ch"
  by (simp add: set_channel_def)








lemma gateway_with_object [simp]: "channel_objects (gateway_with ch) r = ch"
  by (simp add: gateway_with_def)

lemma gateway_with_fields [simp]:
  "u_callbacks (gateway_with ch) = []" "u_channels (gateway_with ch) = [(cid ch, 0)]"
  "u_error (gateway_with ch) = None" "callback_calls (gateway_with ch) = []"
  "stderr (gateway_with ch) = []" "u_execqueue (gateway_with ch) = None"
  by (simp_all add: gateway_with_def BaseGateway_init_def)






lemma u_send_other_fields: "u_send g msg = (r, g') \<Longrightarrow> g' = g\<lparr>u_serializer := u_serializer g'\<rparr>"
  by (auto simp add: u_send_def split: prod.splits option.splits)







lemma save_int_small:
  "- 2147483648 \<le> i \<Longrightarrow> i \<le> 2147483647 \<Longrightarrow>
     save_int i = (None, [[op ''INT''], big_endian4 (i mod 4294967296)])"
  by (simp add: save_int_def u_save_integral_def u_write_int4_def u_write_def struct_pack_i_def
      FOUR_BYTE_INT_MAX_def)











lemma wire_set_channel [simp]: "wire (set_channel self ch g) = wire g"
  by (simp add: wire_def set_channel_def)

lemma gateway_with_serializer [simp]:
  "u_serializer (gateway_with ch)
     = \<lparr>WRITE_ON_SUCCESS = True, streamlist = [], u_stream = fresh_io\<rparr>"
  "wire (gateway_with ch) = []"
  by (simp_all add: gateway_with_def BaseGateway_init_def wire_def fresh_io_def)

lemma frame_CHANNEL_CLOSE_1:
  "frame (Msg CHANNEL_CLOSE 1)
     = [CHR ''F'', CHR 0x00, CHR 0x00, CHR 0x00, CHR 0x03,
        CHR ''F'', CHR 0x00, CHR 0x00, CHR 0x00, CHR 0x01,
        CHR ''N'', CHR 0x00, CHR 0x00, CHR 0x00, CHR 0x00,
        CHR ''@'', CHR 0x00, CHR 0x00, CHR 0x00, CHR 0x03, CHR ''Q'']"
  by (simp add: frame_def message_tuple_def Msg_def msgtype_def classes_def save_int_small
      save_str_def u_write_unicode_string_def u_write_byte_sequence_def u_write_int4_def
      u_write_def FOUR_BYTE_INT_MAX_def struct_pack_i_def big_endian4_def char_of_def op_values)



section \<open>The claims\<close>

text \<open>
  C2, as the code has it. \<^verbatim>\<open>_buildopcodes\<close> gives the opcode name of rank \<open>i\<close> in the
  alphabetical order of the 20 names the byte \<open>64 + i\<close>: the first name, \<^verbatim>\<open>BUILDTUPLE\<close>, is
  the byte 64 (\<^verbatim>\<open>@\<close>), \<^verbatim>\<open>BYTES\<close> is \<^verbatim>\<open>A\<close>, and the last, \<^verbatim>\<open>UNICODE\<close>, is \<^verbatim>\<open>S\<close>. The
  assignment depends on the names alone: it is the same for every order in which the
  class dictionary lists its attributes.
\<close>

theorem opcodes_by_alphabetical_rank_from_64:
  assumes "set attrs = set Unserializer_dict" and "distinct (map fst attrs)"
  shows "map fst (sorted_loaders attrs) = opcode_names \<and> sorted opcode_names
     \<and> map (map_of (snd (buildopcodes attrs))) opcode_names
         = map (\<lambda>i. Some (b_chr (64 + i))) [0 ..< 20]
     \<and> buildopcodes attrs = buildopcodes Unserializer_dict
     \<and> opcode ''BUILDTUPLE'' = Some (CHR ''@'')
     \<and> opcode ''BYTES'' = Some (CHR ''A'')
     \<and> opcode ''UNICODE'' = Some (CHR ''S'')"
proof -
  have e: "buildopcodes attrs = buildopcodes Unserializer_dict"
    using sorted_loaders_order_independent [OF assms] by (simp add: buildopcodes_def)
  have 1: "map (map_of (snd (buildopcodes Unserializer_dict))) opcode_names
         = map (\<lambda>i. Some (b_chr (64 + i))) [0 ..< 20]"
    unfolding buildopcodes_value by code_simp
  have 2: "opcode ''BUILDTUPLE'' = Some (CHR ''@'')" "opcode ''BYTES'' = Some (CHR ''A'')"
    "opcode ''UNICODE'' = Some (CHR ''S'')"
    unfolding opcode_def buildopcodes_value by simp_all
  show ?thesis
    using 1 2 sorted_loaders_order_independent [OF assms] names_of_sorted_loaders
      opcode_names_sorted
    by (simp add: e)
qed

theorem opcodes_by_alphabetical_rank_from_64_witness:
  "set (rev Unserializer_dict) = set Unserializer_dict
   \<and> distinct (map fst (rev Unserializer_dict))
   \<and> map (map_of (snd (buildopcodes (rev Unserializer_dict)))) opcode_names
         = map (\<lambda>i. Some (b_chr (64 + i))) [0 ..< 20]
   \<and> buildopcodes (rev Unserializer_dict) = buildopcodes Unserializer_dict"
proof -
  have a: "set (rev Unserializer_dict) = set Unserializer_dict" by simp
  have b: "distinct (map fst (rev Unserializer_dict))" by code_simp
  note t = opcodes_by_alphabetical_rank_from_64 [OF a b]
  from t have c: "map (map_of (snd (buildopcodes (rev Unserializer_dict)))) opcode_names
         = map (\<lambda>i. Some (b_chr (64 + i))) [0 ..< 20]"
    by (elim conjE)
  from t have d: "buildopcodes (rev Unserializer_dict) = buildopcodes Unserializer_dict"
    by (elim conjE)
  show ?thesis by (intro conjI a b c d)
qed

text \<open>C2 as stated fails: \<^verbatim>\<open>BUILDTUPLE\<close> is not the letter \<^verbatim>\<open>A\<close>, and \<^verbatim>\<open>UNICODE\<close> not \<^verbatim>\<open>T\<close>.\<close>

theorem opcode_BUILDTUPLE_is_not_A:
  "opcode ''BUILDTUPLE'' \<noteq> Some (CHR ''A'') \<and> opcode ''UNICODE'' \<noteq> Some (CHR ''T'')"
  by (simp add: opcode_def buildopcodes_value)

text \<open>
  C3. If \<^verbatim>\<open>Serializer.save(obj)\<close> raises, the transport is as it was before the call:
  nothing was written. This holds in particular when the encoding \<^verbatim>\<open>_save(obj)\<close> raises
  in the mode write-on-success, where \<^verbatim>\<open>save\<close> raises the same exception. When \<^verbatim>\<open>save\<close>
  returns, the encoding succeeded with the chunks \<open>sl\<close> and the transport has received
  one write more, of their concatenation.
\<close>

theorem save_failure_emits_nothing:
  "(\<forall>e ser'. save ser obj = (Some e, ser') \<longrightarrow> u_stream ser' = u_stream ser)
   \<and> (\<forall>e. WRITE_ON_SUCCESS ser \<and> fst (u_save obj) = Some e \<longrightarrow>
         fst (save ser obj) = Some e \<and> u_stream (snd (save ser obj)) = u_stream ser)
   \<and> (\<forall>ser'. save ser obj = (None, ser') \<longrightarrow>
         (\<exists>sl. andthen (u_save obj) (u_write [op ''STOP'']) = (None, sl)
             \<and> outfile (u_stream ser') = outfile (u_stream ser) @ [concat sl]))"
  by (auto simp add: save_def Popen2IO_write_def andthen_def u_write_def
      split: if_splits prod.splits option.splits sum.splits)

theorem save_failure_emits_nothing_witness:
  "save \<lparr>WRITE_ON_SUCCESS = True, streamlist = [],
          u_stream = \<lparr>outfile = [], outfile_error = None, infile = []\<rparr>\<rparr>
     (VList [VInt 1, VObject ''file''])
   = (Some (SerializationError ''can't serialize file''),
      \<lparr>WRITE_ON_SUCCESS = True,
       streamlist = [''K'', [CHR 0x00, CHR 0x00, CHR 0x00, CHR 0x02],
                     ''F'', [CHR 0x00, CHR 0x00, CHR 0x00, CHR 0x00],
                     ''F'', [CHR 0x00, CHR 0x00, CHR 0x00, CHR 0x01], ''P'',
                     ''F'', [CHR 0x00, CHR 0x00, CHR 0x00, CHR 0x01]],
       u_stream = \<lparr>outfile = [], outfile_error = None, infile = []\<rparr>\<rparr>)"
  using save_failure_emits_nothing
    [of "\<lparr>WRITE_ON_SUCCESS = True, streamlist = [],
          u_stream = \<lparr>outfile = [], outfile_error = None, infile = []\<rparr>\<rparr>"
        "VList [VInt 1, VObject ''file'']"]
  by (simp add: save_def u_write_def op_values save_int_def u_save_integral_def
      u_write_int4_def FOUR_BYTE_INT_MAX_def struct_pack_i_def big_endian4_def char_of_def)




text \<open>
  C5. \<^verbatim>\<open>Channel.receive(timeout)\<close> raises \<^verbatim>\<open>IOError\<close> when the channel has no queue, which is
  when a callback was installed. When the item it takes from the queue is the
  end-marker, the end-marker goes back to the end of the queue, and the first queued
  \<^verbatim>\<open>RemoteError\<close> is raised and removed from the list; without a queued error it is
  \<^verbatim>\<open>EOFError\<close> (the one the gateway has recorded, if it has). On an empty queue a positive
  timeout ends in \<^verbatim>\<open>TimeoutError\<close> with the gateway, and so the queue, as before. Another
  item is returned and leaves the queue.
\<close>

theorem receive_errors:
  "(u_items (channel_objects g self) = None \<longrightarrow>
      receive g self timeout
        = (Raises (IOError ''cannot receive(), channel has receiver callback''), g))
   \<and> (u_items (channel_objects g self) = Some (ENDMARKER # rest)
        \<and> u_remoteerrors (channel_objects g self) = VRemoteError t # errors \<longrightarrow>
      receive g self timeout
        = (Raises (RemoteErrorExn t),
           set_channel self ((channel_objects g self)
             \<lparr>u_items := Some (rest @ [ENDMARKER]), u_remoteerrors := errors\<rparr>) g))
   \<and> (u_items (channel_objects g self) = Some (ENDMARKER # rest)
        \<and> u_remoteerrors (channel_objects g self) = []
        \<and> (u_error g = None \<or> u_error g = Some EOFError) \<longrightarrow>
      receive g self timeout
        = (Raises EOFError,
           set_channel self ((channel_objects g self)\<lparr>u_items := Some (rest @ [ENDMARKER])\<rparr>) g))
   \<and> (u_items (channel_objects g self) = Some [] \<and> 0 < timeout \<longrightarrow>
      receive g self timeout = (Raises TimeoutError, g))
   \<and> (u_items (channel_objects g self) = Some (Item v # rest) \<longrightarrow>
      receive g self timeout
        = (Returns v, set_channel self ((channel_objects g self)\<lparr>u_items := Some rest\<rparr>) g))"
  by (auto simp add: receive_def u_getremoteerror_def raise_or_EOFError_def Let_def set_channel_def)

theorem receive_errors_witness:
  "receive (gateway_with ((Channel_init 1)\<lparr>u_items := None\<rparr>)) 0 5
     = (Raises (IOError ''cannot receive(), channel has receiver callback''),
        gateway_with ((Channel_init 1)\<lparr>u_items := None\<rparr>))
   \<and> receive (gateway_with ((Channel_init 1)
          \<lparr>u_items := Some [ENDMARKER], u_remoteerrors := [VRemoteError ''boom'']\<rparr>)) 0 5
     = (Raises (RemoteErrorExn ''boom''),
        set_channel 0 ((Channel_init 1)\<lparr>u_items := Some [ENDMARKER], u_remoteerrors := []\<rparr>)
          (gateway_with ((Channel_init 1)
             \<lparr>u_items := Some [ENDMARKER], u_remoteerrors := [VRemoteError ''boom'']\<rparr>)))
   \<and> receive (gateway_with ((Channel_init 1)\<lparr>u_items := Some [ENDMARKER, Item VNone]\<rparr>)) 0 5
     = (Raises EOFError,
        set_channel 0 ((Channel_init 1)\<lparr>u_items := Some [Item VNone, ENDMARKER]\<rparr>)
          (gateway_with ((Channel_init 1)\<lparr>u_items := Some [ENDMARKER, Item VNone]\<rparr>)))
   \<and> receive (gateway_with (Channel_init 1)) 0 5
     = (Raises TimeoutError, gateway_with (Channel_init 1))
   \<and> receive (gateway_with ((Channel_init 1)\<lparr>u_items := Some [Item (VInt 42)]\<rparr>)) 0 5
     = (Returns (VInt 42),
        set_channel 0 ((Channel_init 1)\<lparr>u_items := Some []\<rparr>)
          (gateway_with ((Channel_init 1)\<lparr>u_items := Some [Item (VInt 42)]\<rparr>)))"
  using
    receive_errors [where g = "gateway_with ((Channel_init 1)\<lparr>u_items := None\<rparr>)"
      and self = 0 and timeout = 5]
    receive_errors [where g = "gateway_with ((Channel_init 1)
          \<lparr>u_items := Some [ENDMARKER], u_remoteerrors := [VRemoteError ''boom'']\<rparr>)"
      and self = 0 and timeout = 5 and rest = "[]" and t = "''boom''" and errors = "[]"]
    receive_errors [where g = "gateway_with ((Channel_init 1)
          \<lparr>u_items := Some [ENDMARKER, Item VNone]\<rparr>)"
      and self = 0 and timeout = 5 and rest = "[Item VNone]"]
    receive_errors [where g = "gateway_with (Channel_init 1)" and self = 0 and timeout = 5]
    receive_errors [where g = "gateway_with ((Channel_init 1)\<lparr>u_items := Some [Item (VInt 42)]\<rparr>)"
      and self = 0 and timeout = 5 and rest = "[]" and v = "VInt 42"]
  by (simp add: Channel_init_def)







text \<open>
  C10. \<^verbatim>\<open>_save_integral\<close> takes the four-byte branch for every \<open>i \<le> 2147483647\<close>, with
  no lower bound. \<^verbatim>\<open>save_int\<close> writes the opcode \<^verbatim>\<open>INT\<close> and the four big-endian bytes
  of \<open>i\<close> for \<open>- 2\<^sup>3\<^sup>1 \<le> i \<le> 2\<^sup>3\<^sup>1 - 1\<close>; for a larger \<open>i\<close> it writes \<^verbatim>\<open>LONGINT\<close>, the
  four-byte length of the decimal and the decimal (as long as that length itself fits
  the four-byte field); for \<open>i < - 2\<^sup>3\<^sup>1\<close> it writes the opcode \<^verbatim>\<open>INT\<close> and the packing
  raises \<^verbatim>\<open>struct.error\<close>, which is not a \<^verbatim>\<open>SerializationError\<close>.
\<close>

theorem save_integral_branches:
  "(i \<le> 2147483647 \<longrightarrow>
      u_save_integral i short_op long_op = andthen (u_write [short_op]) (u_write_int4 i int4_error))
   \<and> (- 2147483648 \<le> i \<and> i \<le> 2147483647 \<longrightarrow>
      save_int i = (None, [[op ''INT''], big_endian4 (i mod 4294967296)]))
   \<and> (2147483647 < i \<and> int (length (str_int i)) \<le> 2147483647 \<longrightarrow>
      save_int i = (None, [[op ''LONGINT''], big_endian4 (int (length (str_int i))), str_int i]))
   \<and> (i < - 2147483648 \<longrightarrow>
      save_int i = (Some StructError, [[op ''INT'']])
      \<and> (\<forall>msg. fst (save_int i) \<noteq> Some (SerializationError msg)))"
  by (simp add: save_int_def u_save_integral_def u_write_int4_def u_write_def struct_pack_i_def
      FOUR_BYTE_INT_MAX_def u_write_byte_sequence_def rstrip_L_str_int)

theorem save_integral_branches_witness:
  "save_int 5 = (None, [''F'', [CHR 0x00, CHR 0x00, CHR 0x00, CHR 0x05]])
   \<and> save_int (- 2147483648) = (None, [''F'', [CHR 0x80, CHR 0x00, CHR 0x00, CHR 0x00]])
   \<and> save_int 4294967296 = (None, [''H'', [CHR 0x00, CHR 0x00, CHR 0x00, CHR 0x0A], ''4294967296''])
   \<and> save_int (- 2147483649) = (Some StructError, [''F''])"
proof -
  have s: "str_int 4294967296 = ''4294967296''" by code_simp
  show ?thesis
    using save_integral_branches [of 5] save_integral_branches [of "- 2147483648"]
      save_integral_branches [of 4294967296] save_integral_branches [of "- 2147483649"]
    by (simp add: s op_values big_endian4_def char_of_def)
qed

end
